theory Spec2Isabelle
  imports Complex_Main "HOL-Library.Word"
begin

section \<open>The PS3000a low-level layer of pico-python\<close>

text \<open>
  A shallow embedding of \<^verbatim>\<open>picoscope/ps3000a.py\<close>: the two timebase conversions
  (\<^verbatim>\<open>getTimeBaseNum\<close>, \<^verbatim>\<open>getTimestepFromTimebase\<close>), the unit-info call and the
  buffer registration methods of class \<^verbatim>\<open>PS3000a\<close>.

  Python floats are modelled by the real numbers (exact arithmetic): a float literal
  such as \<^verbatim>\<open>8.0E-9\<close> is the real \<open>8 / 10 ^ 9\<close>, and the operators are the exact ones.
  Rounding, the infinities and NaN are outside this model. Python integers are
  \<open>int\<close>. Every exception of the source is a value of type \<open>error\<close>, returned on
  the left of a sum. A method \<^verbatim>\<open>_lowLevelX\<close> of the source is the constant
  \<open>lowLevelX\<close> here.
\<close>

subsection \<open>Exceptions\<close>

datatype error =
    ValueError string
  | ZeroDivisionError
  | NameError string
  | AttributeError string
  | DriverError int

subsection \<open>Timebase conversion\<close>

text \<open>
  \<^verbatim>\<open>math.log(x, base)\<close>: the logarithm of \<open>x\<close> to the given base, computed as
  \<^verbatim>\<open>log(x) / log(base)\<close>. It raises \<^verbatim>\<open>ValueError: math domain error\<close> when an
  argument is not positive and \<^verbatim>\<open>ZeroDivisionError\<close> when the base is 1.
  (HOL's own \<open>ln\<close> is total, with \<open>ln 0 = 0\<close>; the guard is what Python does.)
\<close>

definition math_log :: "real \<Rightarrow> real \<Rightarrow> error + real" where
  "math_log x b =
     (if x \<le> 0 \<or> b \<le> 0 then Inl (ValueError ''math domain error'')
      else if b = 1 then Inl ZeroDivisionError
      else Inr (ln x / ln b))"

text \<open>
  \<^verbatim>\<open>
  def getTimeBaseNum(self, sampleTimeS):
      maxSampleTime = (((2 ** 32 - 1) - 2) / 125000000)
      if sampleTimeS < 8.0E-9:
          st = math.floor(math.log(sampleTimeS * 1E9, 2))
          st = max(st, 0)
      else:
          if sampleTimeS > maxSampleTime:
              sampleTimeS = maxSampleTime
          st = math.floor((sampleTimeS * 125000000) + 2)
      st = int(st)
      return st
  \<close>
  The module has \<^verbatim>\<open>from __future__ import division\<close>, so \<^verbatim>\<open>/\<close> is true division.
\<close>

definition maxSampleTime :: real where
  "maxSampleTime = ((2 ^ 32 - 1) - 2) / 125000000"

definition getTimeBaseNum :: "real \<Rightarrow> error + int" where
  "getTimeBaseNum sampleTimeS =
     (if sampleTimeS < 8 / 10 ^ 9 then
        (case math_log (sampleTimeS * 10 ^ 9) 2 of
           Inl e \<Rightarrow> Inl e
         | Inr l \<Rightarrow> Inr (max \<lfloor>l\<rfloor> 0))
      else
        (let s = (if sampleTimeS > maxSampleTime then maxSampleTime else sampleTimeS)
         in Inr \<lfloor>s * 125000000 + 2\<rfloor>))"

text \<open>
  \<^verbatim>\<open>2. ** timebase\<close> for an integer exponent: a negative exponent gives the
  reciprocal power.
\<close>

definition float_pow2 :: "int \<Rightarrow> real" where
  "float_pow2 n = (if n < 0 then 1 / 2 ^ nat (- n) else 2 ^ nat n)"

text \<open>
  \<^verbatim>\<open>
  def getTimestepFromTimebase(self, timebase):
      if timebase < 3:
          dt = 2. ** timebase / 1.0E9
      else:
          dt = (timebase - 2.0) / 125000000.
      return dt
  \<close>
\<close>

definition getTimestepFromTimebase :: "int \<Rightarrow> real" where
  "getTimestepFromTimebase timebase =
     (if timebase < 3 then float_pow2 timebase / 10 ^ 9
      else (real_of_int timebase - 2) / 125000000)"

text \<open>
  The composition \<^verbatim>\<open>getTimestepFromTimebase(getTimeBaseNum(t))\<close>: an exception of the
  first call propagates.
\<close>

definition achievedInterval :: "real \<Rightarrow> error + real" where
  "achievedInterval t =
     (case getTimeBaseNum t of
        Inl e \<Rightarrow> Inl e
      | Inr c \<Rightarrow> Inr (getTimestepFromTimebase c))"


text \<open>
  Both calls \<^verbatim>\<open>getTimeBaseNum(s1)\<close> and \<^verbatim>\<open>getTimeBaseNum(s2)\<close> return, and the first
  code is at most the second.
\<close>

definition codesOrdered :: "real \<Rightarrow> real \<Rightarrow> bool" where
  "codesOrdered s1 s2 =
     (case getTimeBaseNum s1 of
        Inl e \<Rightarrow> False
      | Inr c1 \<Rightarrow> (case getTimeBaseNum s2 of Inl e \<Rightarrow> False | Inr c2 \<Rightarrow> c1 \<le> c2))"

section \<open>Calls into the driver library\<close>

subsection \<open>Marshalled arguments and the library\<close>

text \<open>
  The arguments of a foreign call, as \<^verbatim>\<open>ctypes\<close> marshals them. The constructors
  \<^verbatim>\<open>c_int16(n)\<close>, \<^verbatim>\<open>c_uint32(n)\<close>, ... keep the low bits of \<open>n\<close> (no overflow
  check), which is \<open>word_of_int\<close>. The source has
  \<^verbatim>\<open>from ctypes import c_int32 as c_enum\<close>.
\<close>

datatype c_arg =
    C_int16 "16 word"
  | C_uint16 "16 word"
  | C_int32 "32 word"
  | C_uint32 "32 word"
  | C_string_buffer nat
  | C_byref_int16 "16 word"
  | C_int16_ptr "16 word list"

abbreviation c_enum :: "32 word \<Rightarrow> c_arg" where
  "c_enum \<equiv> C_int32"

text \<open>
  \<open>C_string_buffer n\<close> is \<^verbatim>\<open>byref(s)\<close> for a character buffer of \<open>n\<close> bytes,
  \<open>C_byref_int16 v\<close> is \<^verbatim>\<open>byref(x)\<close> for a \<^verbatim>\<open>c_int16\<close> currently holding \<open>v\<close>,
  and \<open>C_int16_ptr xs\<close> is \<^verbatim>\<open>data.ctypes.data_as(POINTER(c_int16))\<close> for an array
  holding the samples \<open>xs\<close>.

  What a call gives back: the returned status (the default \<^verbatim>\<open>ctypes\<close> result type,
  a Python integer), the characters the driver wrote into a character buffer, and
  the value it wrote through a \<^verbatim>\<open>c_int16\<close> reference.
\<close>

record lib_result =
  status :: int
  out_chars :: string
  out_int16 :: "16 word"

text \<open>
  The driver is external: \<^verbatim>\<open>self.lib\<close> maps the name of an entry point to its
  behaviour, and a name the library does not export raises \<^verbatim>\<open>AttributeError\<close>.
  An entry point answers from the calls made so far and its arguments.
\<close>

type_synonym call_log = "(string \<times> c_arg list) list"
type_synonym entry_point = "call_log \<Rightarrow> c_arg list \<Rightarrow> lib_result"
type_synonym library = "string \<Rightarrow> entry_point option"

text \<open>
  The instance: the loaded library, the handle set by \<^verbatim>\<open>_lowLevelOpenUnit\<close>, the
  attribute \<^verbatim>\<open>maxSamples\<close> (recorded by the base class when the memory segments
  are configured; \<open>None\<close> while the attribute does not exist), and the log of the
  driver calls made through the instance, in order.
\<close>

record PS3000a =
  lib :: library
  handle :: int
  maxSamples :: "int option"
  calls :: call_log

text \<open>\<^verbatim>\<open>self.lib.name(args)\<close>\<close>

definition lib_invoke :: "string \<Rightarrow> c_arg list \<Rightarrow> PS3000a \<Rightarrow> (error + lib_result) \<times> PS3000a" where
  "lib_invoke name args self =
     (case lib self name of
        None \<Rightarrow> (Inl (AttributeError name), self)
      | Some f \<Rightarrow> (Inr (f (calls self) args), self\<lparr>calls := calls self @ [(name, args)]\<rparr>))"

text \<open>
  Modelled from the spec: \<^verbatim>\<open>checkResult\<close> is a method of the base class
  \<^verbatim>\<open>_PicoscopeBase\<close> (\<^verbatim>\<open>picoscope/picobase.py\<close>), which is not among the sources.
  The specification: every driver call's status is checked immediately after the
  call, and a non-zero status is surfaced immediately to the caller as a
  DriverError carrying the raw status code.
\<close>

definition checkResult :: "int \<Rightarrow> error + unit" where
  "checkResult m = (if m = 0 then Inr () else Inl (DriverError m))"

subsection \<open>Unit information\<close>

text \<open>
  \<^verbatim>\<open>s.value\<close> of a character buffer of \<open>n\<close> bytes into which the driver wrote
  \<open>cs\<close>: the bytes before the first NUL. The decoded text is represented by these
  bytes.
\<close>

definition c_string_value :: "nat \<Rightarrow> string \<Rightarrow> string" where
  "c_string_value n cs = takeWhile (\<lambda>c. (of_char c :: nat) \<noteq> 0) (take n cs)"

text \<open>
  \<^verbatim>\<open>
  def _lowLevelGetUnitInfo(self, info):
      s = create_string_buffer(256)
      requiredSize = c_int16(0)
      m = self.lib.ps3000aGetUnitInfo(c_int16(self.handle), byref(s),
                                     c_int16(len(s)), byref(requiredSize),
                                     c_enum(info))
      self.checkResult(m)
      if requiredSize.value > len(s):
          s = create_string_buffer(requiredSize.value + 1)
          m = self.lib.ps3000_get_unit_info(c_int16(self.handle), byref(s),
                                         c_int16(len(s)),
                                         byref(requiredSize), c_enum(info))
          self.checkResult(m)
      return s.value.decode('utf-8')
  \<close>
\<close>

definition lowLevelGetUnitInfo :: "int \<Rightarrow> PS3000a \<Rightarrow> (error + string) \<times> PS3000a" where
  "lowLevelGetUnitInfo info self =
     (case lib_invoke ''ps3000aGetUnitInfo''
             [C_int16 (word_of_int (handle self)), C_string_buffer 256,
              C_int16 (word_of_int 256), C_byref_int16 0, c_enum (word_of_int info)] self of
        (Inl e, self1) \<Rightarrow> (Inl e, self1)
      | (Inr r1, self1) \<Rightarrow>
          (case checkResult (status r1) of
             Inl e \<Rightarrow> (Inl e, self1)
           | Inr _ \<Rightarrow>
               if sint (out_int16 r1) > 256 then
                 (let n = nat (sint (out_int16 r1) + 1) in
                  case lib_invoke ''ps3000_get_unit_info''
                         [C_int16 (word_of_int (handle self1)), C_string_buffer n,
                          C_int16 (word_of_int (int n)), C_byref_int16 (out_int16 r1),
                          c_enum (word_of_int info)] self1 of
                    (Inl e, self2) \<Rightarrow> (Inl e, self2)
                  | (Inr r2, self2) \<Rightarrow>
                      (case checkResult (status r2) of
                         Inl e \<Rightarrow> (Inl e, self2)
                       | Inr _ \<Rightarrow> (Inr (c_string_value n (out_chars r2)), self2)))
               else (Inr (c_string_value 256 (out_chars r1)), self1)))"

subsection \<open>Buffer registration\<close>

text \<open>
  \<^verbatim>\<open>
  def _lowLevelGetMaxSegments(self):
      maxSegments = c_int16()
      m = self.lib.ps3000aGetMaxSegments(c_int16(self.handle),
          byref(maxSegments))
      self.checkResult(m)
      return maxSegments.value
  \<close>
\<close>

definition lowLevelGetMaxSegments :: "PS3000a \<Rightarrow> (error + int) \<times> PS3000a" where
  "lowLevelGetMaxSegments self =
     (case lib_invoke ''ps3000aGetMaxSegments''
             [C_int16 (word_of_int (handle self)), C_byref_int16 0] self of
        (Inl e, self1) \<Rightarrow> (Inl e, self1)
      | (Inr r, self1) \<Rightarrow>
          (case checkResult (status r) of
             Inl e \<Rightarrow> (Inl e, self1)
           | Inr _ \<Rightarrow> (Inr (sint (out_int16 r)), self1)))"

text \<open>
  \<^verbatim>\<open>
  def _lowLevelSetDataBuffer(self, channel, data, downSampleMode, segmentIndex):
      dataPtr = data.ctypes.data_as(POINTER(c_int16))
      numSamples = len(data)
      m = self.lib.ps3000aSetDataBuffer(c_int16(self.handle), c_enum(channel),
                                       dataPtr, c_int32(numSamples),
                                       c_uint32(segmentIndex),
                                       c_enum(downSampleMode))
      self.checkResult(m)
  \<close>
  The array \<open>data\<close> is one-dimensional here: the list of its samples.
\<close>

definition lowLevelSetDataBuffer ::
  "int \<Rightarrow> 16 word list \<Rightarrow> int \<Rightarrow> int \<Rightarrow> PS3000a \<Rightarrow> (error + unit) \<times> PS3000a" where
  "lowLevelSetDataBuffer channel data downSampleMode segmentIndex self =
     (let numSamples = int (length data) in
      case lib_invoke ''ps3000aSetDataBuffer''
             [C_int16 (word_of_int (handle self)), c_enum (word_of_int channel),
              C_int16_ptr data, C_int32 (word_of_int numSamples),
              C_uint32 (word_of_int segmentIndex), c_enum (word_of_int downSampleMode)] self of
        (Inl e, self1) \<Rightarrow> (Inl e, self1)
      | (Inr r, self1) \<Rightarrow>
          (case checkResult (status r) of
             Inl e \<Rightarrow> (Inl e, self1)
           | Inr _ \<Rightarrow> (Inr (), self1)))"

text \<open>
  A two-dimensional sample array: \<^verbatim>\<open>data.shape\<close> is \<open>(shape0, shape1)\<close>, one row
  per memory segment.
\<close>

record ndarray2 =
  shape0 :: nat
  shape1 :: nat
  rows :: "16 word list list"

text \<open>
  \<^verbatim>\<open>
  def _lowLevelSetMultipleDataBuffers(self, channel, data, downSampleMode):
      max_segments = self._lowLevelGetMaxSegments()
      if data.shape[0] < max_segments:
          raise ValueError("data array has fewer rows than current number of memory segments")
      if data.shape[1] < self.maxSamples:
          raise ValueError("data array has fewer columns than maxSamples")

      for i in range(max_segments):
          m = ps._lowLevelSetDataBuffer(channel, data[i, :],
              downSampleMode, i)
          self.checkResult(m)
  \<close>
  One pass of the loop body. Python evaluates the callee
  \<^verbatim>\<open>ps._lowLevelSetDataBuffer\<close> before the arguments. The name \<^verbatim>\<open>ps\<close> is not a
  parameter or local variable of the method (these are \<^verbatim>\<open>self\<close>, \<^verbatim>\<open>channel\<close>,
  \<^verbatim>\<open>data\<close>, \<^verbatim>\<open>downSampleMode\<close>, \<^verbatim>\<open>max_segments\<close>, \<^verbatim>\<open>i\<close>, \<^verbatim>\<open>m\<close>), the module binds
  no such name (it binds \<^verbatim>\<open>math\<close>, \<^verbatim>\<open>platform\<close>, the \<^verbatim>\<open>ctypes\<close> imports,
  \<^verbatim>\<open>_PicoscopeBase\<close> and \<^verbatim>\<open>PS3000a\<close>), and it is not a builtin: the lookup raises
  \<^verbatim>\<open>NameError\<close>, and neither \<^verbatim>\<open>data[i, :]\<close> nor the call nor
  \<^verbatim>\<open>self.checkResult(m)\<close> is reached.
\<close>

definition setMultiple_body :: "int \<Rightarrow> ndarray2 \<Rightarrow> int \<Rightarrow> nat \<Rightarrow> PS3000a \<Rightarrow> (error + unit) \<times> PS3000a" where
  "setMultiple_body channel data downSampleMode i self = (Inl (NameError ''ps''), self)"

text \<open>The \<^verbatim>\<open>for\<close> loop over the indices of \<^verbatim>\<open>range(max_segments)\<close>: an exception ends it.\<close>

primrec setMultiple_loop :: "int \<Rightarrow> ndarray2 \<Rightarrow> int \<Rightarrow> nat list \<Rightarrow> PS3000a \<Rightarrow> (error + unit) \<times> PS3000a" where
  "setMultiple_loop channel data downSampleMode [] self = (Inr (), self)"
| "setMultiple_loop channel data downSampleMode (i # rest) self =
     (case setMultiple_body channel data downSampleMode i self of
        (Inl e, self1) \<Rightarrow> (Inl e, self1)
      | (Inr _, self1) \<Rightarrow> setMultiple_loop channel data downSampleMode rest self1)"

definition lowLevelSetMultipleDataBuffers ::
  "int \<Rightarrow> ndarray2 \<Rightarrow> int \<Rightarrow> PS3000a \<Rightarrow> (error + unit) \<times> PS3000a" where
  "lowLevelSetMultipleDataBuffers channel data downSampleMode self =
     (case lowLevelGetMaxSegments self of
        (Inl e, self1) \<Rightarrow> (Inl e, self1)
      | (Inr max_segments, self1) \<Rightarrow>
          if int (shape0 data) < max_segments then
            (Inl (ValueError ''data array has fewer rows than current number of memory segments''), self1)
          else
            (case maxSamples self1 of
               None \<Rightarrow> (Inl (AttributeError ''maxSamples''), self1)
             | Some ms \<Rightarrow>
                 if int (shape1 data) < ms then
                   (Inl (ValueError ''data array has fewer columns than maxSamples''), self1)
                 else setMultiple_loop channel data downSampleMode [0..<nat max_segments] self1))"

text \<open>The result is a \<^verbatim>\<open>ValueError\<close> (the specification's ConfigurationError).\<close>

fun is_ValueError :: "error + 'a \<Rightarrow> bool" where
  "is_ValueError (Inl (ValueError msg)) = True"
| "is_ValueError r = False"

text \<open>The calls of a log that went to the buffer registration entry point.\<close>

definition registration_calls :: "call_log \<Rightarrow> call_log" where
  "registration_calls hist = filter (\<lambda>c. fst c = ''ps3000aSetDataBuffer'') hist"

subsection \<open>A driver stub\<close>

text \<open>
  A stand-in for the driver, for evaluating the methods: every entry point returns
  status 0. It reports \<open>segs\<close> memory segments. Its unit information is a text of
  299 characters, so it asks for 300 bytes; \<^verbatim>\<open>ps3000aGetUnitInfo\<close> writes as much of
  the text as the buffer holds, and \<^verbatim>\<open>ps3000_get_unit_info\<close> is a different entry
  point, which writes nothing.
\<close>

definition stub_unit_info :: entry_point where
  "stub_unit_info hist args =
     (case args of
        [h, C_string_buffer n, len, req, info] \<Rightarrow>
          \<lparr>status = 0, out_chars = take n (replicate 299 CHR ''x''), out_int16 = 300\<rparr>
      | _ \<Rightarrow> \<lparr>status = 0, out_chars = [], out_int16 = 0\<rparr>)"

definition stub_lib :: "16 word \<Rightarrow> library" where
  "stub_lib segs name =
     (if name = ''ps3000aGetMaxSegments'' then
        Some (\<lambda>hist args. \<lparr>status = 0, out_chars = [], out_int16 = segs\<rparr>)
      else if name = ''ps3000aSetDataBuffer'' then
        Some (\<lambda>hist args. \<lparr>status = 0, out_chars = [], out_int16 = 0\<rparr>)
      else if name = ''ps3000aGetUnitInfo'' then Some stub_unit_info
      else if name = ''ps3000_get_unit_info'' then
        Some (\<lambda>hist args. \<lparr>status = 0, out_chars = [], out_int16 = 0\<rparr>)
      else None)"

definition stub_ps :: "16 word \<Rightarrow> int \<Rightarrow> PS3000a" where
  "stub_ps segs ms = \<lparr>lib = stub_lib segs, handle = 1, maxSamples = Some ms, calls = []\<rparr>"

definition stub_data :: "nat \<Rightarrow> nat \<Rightarrow> ndarray2" where
  "stub_data r c = \<lparr>shape0 = r, shape1 = c, rows = replicate r (replicate c 0)\<rparr>"

section \<open>Properties of the timebase conversion\<close>

subsection \<open>Auxiliary facts\<close>

lemma maxSampleTime_value: "maxSampleTime = 4294967293 / 125000000"
  by (simp add: maxSampleTime_def)

lemma math_log_pos: "0 < x \<Longrightarrow> math_log x 2 = Inr (log 2 x)"
  by (simp add: math_log_def log_def)

lemma math_log_nonpos: "x \<le> 0 \<Longrightarrow> math_log x 2 = Inl (ValueError ''math domain error'')"
  by (simp add: math_log_def)

lemma getTimeBaseNum_fast:
  assumes "0 < s" and "s < 8 / 10 ^ 9"
  shows "getTimeBaseNum s = Inr (max \<lfloor>log 2 (s * 10 ^ 9)\<rfloor> 0)"
proof -
  have "0 < s * 10 ^ 9" using assms(1) by simp
  then show ?thesis
    using assms(2) by (simp add: getTimeBaseNum_def math_log_pos)
qed

lemma getTimeBaseNum_slow:
  assumes "8 / 10 ^ 9 \<le> s"
  shows "getTimeBaseNum s = Inr \<lfloor>min s maxSampleTime * 125000000 + 2\<rfloor>"
  using assms by (simp add: getTimeBaseNum_def min_def not_less)

lemma getTimeBaseNum_nonpos:
  assumes "s \<le> 0"
  shows "getTimeBaseNum s = Inl (ValueError ''math domain error'')"
proof -
  have "s * 10 ^ 9 \<le> 0" using assms by (simp add: mult_le_0_iff)
  moreover have "s < 8 / 10 ^ 9" using assms by simp
  ultimately show ?thesis
    by (simp add: getTimeBaseNum_def math_log_nonpos)
qed

lemma floor_log2_fast:
  assumes "0 < x" and "x < 8"
  shows "max \<lfloor>log 2 x\<rfloor> 0 = (if x < 2 then 0 else if x < 4 then 1 else (2::int))"
proof -
  have neg: "\<lfloor>log 2 x\<rfloor> \<le> 0" if "x < 2"
  proof -
    have "log 2 x < 1" using assms(1) that by simp
    then show ?thesis by (simp add: floor_le_iff)
  qed
  have one: "\<lfloor>log 2 x\<rfloor> = 1" if "2 \<le> x" "x < 4"
  proof -
    have "(2::real) powr 1 \<le> x \<and> x < 2 powr (1 + 1)"
      using that by (simp add: powr_add)
    then show ?thesis
      using floor_log_eq_powr_iff [of x 2 1] assms(1) by simp
  qed
  have two: "\<lfloor>log 2 x\<rfloor> = 2" if "4 \<le> x"
  proof -
    have "(2::real) powr 2 \<le> x \<and> x < 2 powr (2 + 1)"
      using that assms(2) by (simp add: powr_add)
    then show ?thesis
      using floor_log_eq_powr_iff [of x 2 2] assms(1) by simp
  qed
  show ?thesis using neg one two by (auto simp: max_def not_less)
qed

text \<open>
  In the fast regime the code is 0 below 2 ns, 1 from 2 ns and 2 from 4 ns: a form of
  \<open>getTimeBaseNum\<close> that evaluates without the logarithm.
\<close>

lemma getTimeBaseNum_fast_code:
  assumes "0 < s" and "s < 8 / 10 ^ 9"
  shows "getTimeBaseNum s =
           Inr (if s * 10 ^ 9 < 2 then 0 else if s * 10 ^ 9 < 4 then 1 else 2)"
proof -
  have "0 < s * 10 ^ 9" and "s * 10 ^ 9 < 8" using assms by simp_all
  then show ?thesis
    using getTimeBaseNum_fast [OF assms] floor_log2_fast [of "s * 10 ^ 9"] by simp
qed



lemma codesOrdered_fast:
  assumes "0 < s1" and "s1 \<le> s2" and "s2 < 8 / 10 ^ 9"
  shows "codesOrdered s1 s2"
proof -
  have p2: "0 < s2" and l1: "s1 < 8 / 10 ^ 9" using assms by simp_all
  have "s1 * 10 ^ 9 \<le> s2 * 10 ^ 9" using assms(2) by simp
  then show ?thesis
    by (simp add: codesOrdered_def getTimeBaseNum_fast_code [OF assms(1) l1]
          getTimeBaseNum_fast_code [OF p2 assms(3)])
qed

lemma codesOrdered_slow:
  assumes "8 / 10 ^ 9 \<le> s1" and "s1 \<le> s2"
  shows "codesOrdered s1 s2"
proof -
  have s2: "8 / 10 ^ 9 \<le> s2" using assms by simp
  have "min s1 maxSampleTime * 125000000 + 2 \<le> min s2 maxSampleTime * 125000000 + 2"
    using assms(2) by (simp add: min_le_iff_disj)
  then have "\<lfloor>min s1 maxSampleTime * 125000000 + 2\<rfloor> \<le> \<lfloor>min s2 maxSampleTime * 125000000 + 2\<rfloor>"
    by (rule floor_mono)
  then show ?thesis
    by (simp add: codesOrdered_def getTimeBaseNum_slow [OF assms(1)] getTimeBaseNum_slow [OF s2])
qed

subsection \<open>From a timebase code to the sampling interval\<close>



subsection \<open>From a requested interval to the timebase code\<close>






text \<open>
  Claim C6, as stated: every requested interval from 0 (included) to below 1 ns
  gives code 0 and no error. It fails at exactly 0, where \<^verbatim>\<open>math.log\<close> raises
  \<^verbatim>\<open>ValueError\<close> before the clamp \<^verbatim>\<open>max(st, 0)\<close> is reached.
\<close>

theorem getTimeBaseNum_zero_counterexample:
  "getTimeBaseNum 0 = Inl (ValueError ''math domain error'') \<and> getTimeBaseNum 0 \<noteq> Inr 0"
  by (simp add: getTimeBaseNum_nonpos)

text \<open>
  Claim C6, amended: every requested interval \<open>s\<close> with \<open>0 < s\<close> and \<open>s\<close> below 1 ns
  gives code 0 and no error.
\<close>

theorem getTimeBaseNum_sub_nanosecond:
  assumes "0 < s" and "s < 1 / 10 ^ 9"
  shows "getTimeBaseNum s = Inr 0"
  using assms by (simp add: getTimeBaseNum_fast_code)

theorem getTimeBaseNum_sub_nanosecond_witness:
  "(0::real) < 1 / 10 ^ 12 \<and> (1::real) / 10 ^ 12 < 1 / 10 ^ 9 \<and> getTimeBaseNum (1 / 10 ^ 12) = Inr 0"
  using getTimeBaseNum_sub_nanosecond [of "1 / 10 ^ 12"] by simp

text \<open>
  Claim C7, as stated: for all \<open>s1 \<le> s2\<close> both below 8 ns, and for all \<open>s1 \<le> s2\<close>
  both at least 8 ns, the code of \<open>s1\<close> is at most the code of \<open>s2\<close>. It fails for
  \<open>s1 = 0\<close> and \<open>s2\<close> = 1 ns, both below 8 ns: the call for \<open>s1\<close> raises and has no
  code.
\<close>

theorem getTimeBaseNum_mono_counterexample:
  "\<not> codesOrdered 0 (1 / 10 ^ 9)"
  by (simp add: codesOrdered_def getTimeBaseNum_nonpos)

text \<open>
  Claim C7, amended: \<open>getTimeBaseNum\<close> is monotonically non-decreasing within each
  of its two regimes on positive intervals: for all \<open>0 < s1 \<le> s2\<close> both below 8 ns,
  and for all \<open>s1 \<le> s2\<close> both at least 8 ns, both calls return and the code of \<open>s1\<close>
  is at most the code of \<open>s2\<close>.
\<close>

theorem getTimeBaseNum_mono:
  assumes "(0 < s1 \<and> s1 \<le> s2 \<and> s2 < 8 / 10 ^ 9) \<or> (8 / 10 ^ 9 \<le> s1 \<and> s1 \<le> s2)"
  shows "codesOrdered s1 s2"
  using assms codesOrdered_fast codesOrdered_slow by blast

theorem getTimeBaseNum_mono_witness:
  "codesOrdered (1 / 10 ^ 9) (5 / 10 ^ 9) \<and> codesOrdered (1 / 10 ^ 6) 1
   \<and> (0::real) < 1 / 10 ^ 9 \<and> (1::real) / 10 ^ 9 \<le> 5 / 10 ^ 9 \<and> (5::real) / 10 ^ 9 < 8 / 10 ^ 9
   \<and> (8::real) / 10 ^ 9 \<le> 1 / 10 ^ 6 \<and> (1::real) / 10 ^ 6 \<le> 1"
  using getTimeBaseNum_mono [of "1 / 10 ^ 9" "5 / 10 ^ 9"] getTimeBaseNum_mono [of "1 / 10 ^ 6" 1]
  by simp

subsection \<open>Round trips\<close>

text \<open>
  Claim C8. Under exact arithmetic, the requested intervals 1 ns, 4 ns, 8 ns, 1 us
  and 1 s give the codes 0, 2, 3, 127 and 125000002, and converting each code back
  gives the intervals 1 ns, 4 ns, 8 ns, 1 us and 1 s; 8 ns takes the slow-clock
  branch.
\<close>

theorem representative_round_trips:
  "getTimeBaseNum (1 / 10 ^ 9) = Inr 0 \<and> achievedInterval (1 / 10 ^ 9) = Inr (1 / 10 ^ 9) \<and>
   getTimeBaseNum (4 / 10 ^ 9) = Inr 2 \<and> achievedInterval (4 / 10 ^ 9) = Inr (4 / 10 ^ 9) \<and>
   getTimeBaseNum (8 / 10 ^ 9) = Inr 3 \<and> achievedInterval (8 / 10 ^ 9) = Inr (8 / 10 ^ 9) \<and>
   getTimeBaseNum (1 / 10 ^ 6) = Inr 127 \<and> achievedInterval (1 / 10 ^ 6) = Inr (1 / 10 ^ 6) \<and>
   getTimeBaseNum 1 = Inr 125000002 \<and> achievedInterval 1 = Inr 1"
proof -
  have f1: "getTimeBaseNum (1 / 10 ^ 9) = Inr 0"
    by (simp add: getTimeBaseNum_fast_code)
  have f2: "getTimeBaseNum (4 / 10 ^ 9) = Inr 2"
    by (simp add: getTimeBaseNum_fast_code)
  have s1: "getTimeBaseNum (8 / 10 ^ 9) = Inr 3"
    by (simp add: getTimeBaseNum_slow min_def maxSampleTime_value)
  have s2: "getTimeBaseNum (1 / 10 ^ 6) = Inr 127"
    by (simp add: getTimeBaseNum_slow min_def maxSampleTime_value)
  have s3: "getTimeBaseNum 1 = Inr 125000002"
    by (simp add: getTimeBaseNum_slow min_def maxSampleTime_value)
  have a1: "achievedInterval (1 / 10 ^ 9) = Inr (1 / 10 ^ 9)"
    unfolding achievedInterval_def f1
    by (simp add: getTimestepFromTimebase_def float_pow2_def)
  have a2: "achievedInterval (4 / 10 ^ 9) = Inr (4 / 10 ^ 9)"
    unfolding achievedInterval_def f2
    by (simp add: getTimestepFromTimebase_def float_pow2_def)
  have a3: "achievedInterval (8 / 10 ^ 9) = Inr (8 / 10 ^ 9)"
    unfolding achievedInterval_def s1
    by (simp add: getTimestepFromTimebase_def)
  have a4: "achievedInterval (1 / 10 ^ 6) = Inr (1 / 10 ^ 6)"
    unfolding achievedInterval_def s2
    by (simp add: getTimestepFromTimebase_def)
  have a5: "achievedInterval 1 = Inr 1"
    unfolding achievedInterval_def s3
    by (simp add: getTimestepFromTimebase_def)
  show ?thesis
    using f1 a1 f2 a2 s1 a3 s2 a4 s3 a5 by simp
qed



section \<open>Properties of the driver calls\<close>

subsection \<open>Auxiliary facts\<close>

lemma lowLevelGetMaxSegments_state:
  assumes "lowLevelGetMaxSegments self = (Inr n, self1)"
  shows "self1 = self\<lparr>calls := calls self @
           [(''ps3000aGetMaxSegments'',
             [C_int16 (word_of_int (handle self)), C_byref_int16 0])]\<rparr>"
  using assms
  by (auto simp: lowLevelGetMaxSegments_def lib_invoke_def
           split: option.splits sum.splits prod.splits)

text \<open>The loop ends in the first pass: it returns normally only when there is no pass.\<close>

lemma setMultiple_loop_result:
  "setMultiple_loop channel data dsm idxs self =
     (if idxs = [] then (Inr (), self) else (Inl (NameError ''ps''), self))"
  by (cases idxs) (simp_all add: setMultiple_body_def)

text \<open>
  With a buffer of the required shape and at least one memory segment, the method
  raises \<^verbatim>\<open>NameError\<close> and leaves the instance as the query for the number of segments
  left it.
\<close>

lemma lowLevelSetMultipleDataBuffers_NameError:
  assumes "lowLevelGetMaxSegments self = (Inr maxSegments, self1)"
    and "maxSamples self = Some ms"
    and "maxSegments \<le> int (shape0 data)" and "ms \<le> int (shape1 data)"
    and "0 < maxSegments"
  shows "lowLevelSetMultipleDataBuffers channel data dsm self = (Inl (NameError ''ps''), self1)"
proof -
  note s1 = lowLevelGetMaxSegments_state [OF assms(1)]
  have ms: "maxSamples self1 = Some ms" using assms(2) by (simp add: s1)
  have ne: "[0..<nat maxSegments] \<noteq> []" using assms(5) by simp
  show ?thesis
    using assms(3,4) ne
    by (simp add: lowLevelSetMultipleDataBuffers_def assms(1) ms setMultiple_loop_result)
qed

lemma stub_max_segments:
  "lowLevelGetMaxSegments (stub_ps segs ms) =
     (Inr (sint segs),
      (stub_ps segs ms)\<lparr>calls := [(''ps3000aGetMaxSegments'', [C_int16 1, C_byref_int16 0])]\<rparr>)"
  by (simp add: lowLevelGetMaxSegments_def lib_invoke_def stub_ps_def stub_lib_def
        checkResult_def)

subsection \<open>Registering the buffers of all segments\<close>

text \<open>
  Claim C4 (the code departs from it). The claim: when the shape preconditions hold,
  the method calls the single-buffer registration once for every segment index from
  0 up, with row \<open>i\<close> and index \<open>i\<close>, checks each result, and stops at the first
  failure. The code: with the stub driver reporting 2 segments, a 2 by 3 buffer and
  \<open>maxSamples = 3\<close>, the method raises \<^verbatim>\<open>NameError\<close> in the first pass of the loop;
  the only driver call is the query for the number of segments, and no buffer is
  registered. Calling \<open>lowLevelSetDataBuffer\<close> on the instance itself does register
  a buffer with the same driver.
\<close>

theorem lowLevelSetMultipleDataBuffers_registers_nothing:
  "lowLevelSetMultipleDataBuffers 0 (stub_data 2 3) 0 (stub_ps 2 3) =
     (Inl (NameError ''ps''),
      (stub_ps 2 3)\<lparr>calls := [(''ps3000aGetMaxSegments'', [C_int16 1, C_byref_int16 0])]\<rparr>)
   \<and> registration_calls
        (calls (snd (lowLevelSetMultipleDataBuffers 0 (stub_data 2 3) 0 (stub_ps 2 3)))) = []
   \<and> lowLevelSetDataBuffer 0 [5, 6, 7] 0 0 (stub_ps 2 3) =
     (Inr (),
      (stub_ps 2 3)\<lparr>calls := [(''ps3000aSetDataBuffer'',
         [C_int16 1, c_enum 0, C_int16_ptr [5, 6, 7], C_int32 3, C_uint32 0, c_enum 0])]\<rparr>)"
proof -
  have m: "lowLevelGetMaxSegments (stub_ps 2 3) =
     (Inr 2, (stub_ps 2 3)\<lparr>calls := [(''ps3000aGetMaxSegments'', [C_int16 1, C_byref_int16 0])]\<rparr>)"
    using stub_max_segments [of 2 3] by simp
  have a: "lowLevelSetMultipleDataBuffers 0 (stub_data 2 3) 0 (stub_ps 2 3) =
     (Inl (NameError ''ps''),
      (stub_ps 2 3)\<lparr>calls := [(''ps3000aGetMaxSegments'', [C_int16 1, C_byref_int16 0])]\<rparr>)"
    unfolding lowLevelSetMultipleDataBuffers_def m
    by (simp add: stub_data_def stub_ps_def setMultiple_body_def upt_conv_Cons)
  have b: "registration_calls
        (calls (snd (lowLevelSetMultipleDataBuffers 0 (stub_data 2 3) 0 (stub_ps 2 3)))) = []"
    unfolding a by (simp add: registration_calls_def)
  have c: "lowLevelSetDataBuffer 0 [5, 6, 7] 0 0 (stub_ps 2 3) =
     (Inr (),
      (stub_ps 2 3)\<lparr>calls := [(''ps3000aSetDataBuffer'',
         [C_int16 1, c_enum 0, C_int16_ptr [5, 6, 7], C_int32 3, C_uint32 0, c_enum 0])]\<rparr>)"
    by (simp add: lowLevelSetDataBuffer_def lib_invoke_def stub_ps_def stub_lib_def
          checkResult_def)
  show ?thesis using a b c by (intro conjI)
qed

text \<open>
  Claim C5. Once the driver has reported the number of memory segments and with a
  recorded \<open>maxSamples\<close>, \<open>lowLevelSetMultipleDataBuffers\<close> fails with \<^verbatim>\<open>ValueError\<close>
  (the specification's ConfigurationError) exactly when the buffer has fewer rows
  than segments or fewer columns than \<open>maxSamples\<close>; when it fails this way the
  instance is as the query left it, and no registration call has been made.
\<close>

theorem lowLevelSetMultipleDataBuffers_shape_check:
  assumes "lowLevelGetMaxSegments self = (Inr maxSegments, self1)"
    and "maxSamples self = Some ms"
  shows "is_ValueError (fst (lowLevelSetMultipleDataBuffers channel data dsm self))
           = (int (shape0 data) < maxSegments \<or> int (shape1 data) < ms)
       \<and> (is_ValueError (fst (lowLevelSetMultipleDataBuffers channel data dsm self)) \<longrightarrow>
            snd (lowLevelSetMultipleDataBuffers channel data dsm self) = self1
            \<and> registration_calls
                (calls (snd (lowLevelSetMultipleDataBuffers channel data dsm self)))
              = registration_calls (calls self))"
proof -
  note s1 = lowLevelGetMaxSegments_state [OF assms(1)]
  have ms: "maxSamples self1 = Some ms" using assms(2) by (simp add: s1)
  have rc: "registration_calls (calls self1) = registration_calls (calls self)"
    by (simp add: s1 registration_calls_def)
  show ?thesis
    by (simp add: lowLevelSetMultipleDataBuffers_def assms(1) ms setMultiple_loop_result rc)
qed

theorem lowLevelSetMultipleDataBuffers_shape_check_witness:
  "lowLevelGetMaxSegments (stub_ps 4 5) =
     (Inr 4, (stub_ps 4 5)\<lparr>calls := [(''ps3000aGetMaxSegments'', [C_int16 1, C_byref_int16 0])]\<rparr>)
   \<and> maxSamples (stub_ps 4 5) = Some 5
   \<and> int (shape0 (stub_data 2 10)) < 4
   \<and> is_ValueError (fst (lowLevelSetMultipleDataBuffers 0 (stub_data 2 10) 0 (stub_ps 4 5)))
   \<and> registration_calls
        (calls (snd (lowLevelSetMultipleDataBuffers 0 (stub_data 2 10) 0 (stub_ps 4 5)))) = []"
proof -
  have q: "lowLevelGetMaxSegments (stub_ps 4 5) =
     (Inr 4, (stub_ps 4 5)\<lparr>calls := [(''ps3000aGetMaxSegments'', [C_int16 1, C_byref_int16 0])]\<rparr>)"
    using stub_max_segments [of 4 5] by simp
  have m: "maxSamples (stub_ps 4 5) = Some 5" by (simp add: stub_ps_def)
  have r: "int (shape0 (stub_data 2 10)) < 4" by (simp add: stub_data_def)
  have c: "registration_calls (calls (stub_ps 4 5)) = []"
    by (simp add: stub_ps_def registration_calls_def)
  show ?thesis
    using lowLevelSetMultipleDataBuffers_shape_check
            [OF q m, where data = "stub_data 2 10" and channel = 0 and dsm = 0] q m r c
    by (simp add: registration_calls_def)
qed

subsection \<open>Unit information\<close>

text \<open>
  Claim C9 (the code departs from it). The claim: when the driver asks for more than
  the initial 256 bytes, the method grows the buffer and retries through the same
  entry point as the first call. The code: with the stub driver, whose unit
  information needs 300 bytes, the first call goes to \<^verbatim>\<open>ps3000aGetUnitInfo\<close> and the
  retry, with a buffer of 301 bytes, goes to \<^verbatim>\<open>ps3000_get_unit_info\<close>; the method
  returns what that other entry point left in the buffer, here the empty text, and
  not the unit information.
\<close>

theorem lowLevelGetUnitInfo_retry_entry_point:
  "lowLevelGetUnitInfo 3 (stub_ps 2 3) =
     (Inr [],
      (stub_ps 2 3)\<lparr>calls :=
        [(''ps3000aGetUnitInfo'',
          [C_int16 1, C_string_buffer 256, C_int16 256, C_byref_int16 0, c_enum 3]),
         (''ps3000_get_unit_info'',
          [C_int16 1, C_string_buffer 301, C_int16 301, C_byref_int16 300, c_enum 3])]\<rparr>)"
  by (simp add: lowLevelGetUnitInfo_def lib_invoke_def stub_ps_def stub_lib_def
        checkResult_def stub_unit_info_def c_string_value_def)

end
